theory Spec2Isabelle
  imports Main "HOL-Library.Sublist"
begin

section \<open>The provisioning script \<^verbatim>\<open>setup-python-env.js\<close>\<close>

text \<open>
  The script is glue around four services of the Node.js runtime: \<^verbatim>\<open>execSync\<close>,
  \<^verbatim>\<open>spawn\<close>, the synchronous file calls of \<^verbatim>\<open>fs\<close> and the console. The embedding
  keeps the control flow of the script as it is written (every \<^verbatim>\<open>try\<close>, \<^verbatim>\<open>catch\<close>,
  \<^verbatim>\<open>finally\<close>, \<^verbatim>\<open>await\<close> and listener registration) and takes the answers of the
  host as parameters: what a shell command prints, which events a child process emits,
  whether a file call fails. Every action the script itself performs is appended to a
  trace, so that orderings can be stated on the trace.

  Strings are byte lists; the lookups print ASCII paths, and \<open>trim\<close> strips the ASCII
  white space. A synchronous exception of \<^verbatim>\<open>spawn\<close> and what the runtime does with an
  \<^verbatim>\<open>'error'\<close> event nobody listens to are outside the script and not modelled: an
  event without a listener is simply not seen by the script. Console calls do not fail.
  What a child leaves on disk is there when the script goes on, and the disk is a set of
  paths, since only the presence of a file matters to the script.
\<close>

subsection \<open>Values, errors, promises\<close>

datatype js_error = Error (message: string)

datatype js_value = Str string | Err js_error

datatype 'a promise = Pending | Fulfilled 'a | Rejected js_error

text \<open>A promise settles once: \<^verbatim>\<open>resolve\<close> and \<^verbatim>\<open>reject\<close> on a settled promise do nothing.\<close>

definition resolve :: "'a \<Rightarrow> 'a promise \<Rightarrow> 'a promise" where
  "resolve v p = (case p of Pending \<Rightarrow> Fulfilled v | _ \<Rightarrow> p)"

definition reject :: "js_error \<Rightarrow> 'a promise \<Rightarrow> 'a promise" where
  "reject e p = (case p of Pending \<Rightarrow> Rejected e | _ \<Rightarrow> p)"

text \<open>
  What a statement does: complete, throw, or (at an \<^verbatim>\<open>await\<close> of a promise that never
  settles) never resume.
\<close>

datatype 'a completion = Normal 'a | Throw js_error | Stalled

definition await :: "'a promise \<Rightarrow> 'a completion" where
  "await p = (case p of Fulfilled v \<Rightarrow> Normal v | Rejected e \<Rightarrow> Throw e | Pending \<Rightarrow> Stalled)"

subsection \<open>Numbers in template strings\<close>

text \<open>
  The exit code handed to the \<^verbatim>\<open>'close'\<close> listener is a number, or \<^verbatim>\<open>null\<close> when the
  child was killed by a signal: \<open>None\<close> is \<^verbatim>\<open>null\<close>. A template string prints it in
  decimal.
\<close>

type_synonym exit_code = "int option"

definition digit_char :: "nat \<Rightarrow> char" where
  "digit_char d = ''0123456789'' ! (d mod 10)"

function string_of_nat :: "nat \<Rightarrow> string" where
  "string_of_nat n = (if n < 10 then [digit_char n] else string_of_nat (n div 10) @ [digit_char n])"
  by pat_completeness auto
termination
  by (relation "measure (\<lambda>n. n)") auto

declare string_of_nat.simps [simp del]

definition string_of_int :: "int \<Rightarrow> string" where
  "string_of_int i = (if i < 0 then CHR ''-'' # string_of_nat (nat (- i)) else string_of_nat (nat i))"

definition string_of_code :: "exit_code \<Rightarrow> string" where
  "string_of_code c = (case c of None \<Rightarrow> ''null'' | Some i \<Rightarrow> string_of_int i)"

subsection \<open>Child processes and the two runners\<close>

text \<open>
  A child process is what its listeners can see of it: the events it emits, in order,
  and what it leaves on disk. A child that hangs emits no \<^verbatim>\<open>'close'\<close>.
\<close>

datatype child_event =
    StdoutData string
  | StderrData string
  | CloseEvent exit_code
  | ErrorEvent js_error

record child =
  events :: "child_event list"
  disk_effect :: "string set \<Rightarrow> string set"

text \<open>
  \<^verbatim>\<open>runCommand\<close> (lines 27-38) registers one listener, for \<^verbatim>\<open>'close'\<close>. The promise it
  returns is the result of running that listener on every event.
\<close>

fun runCommand_on :: "child_event \<Rightarrow> unit promise \<Rightarrow> unit promise" where
  "runCommand_on (CloseEvent code) p =
     (if code \<noteq> Some 0
      then reject (Error (''Command failed with exit code '' @ string_of_code code)) p
      else resolve () p)"
| "runCommand_on _ p = p"

definition runCommand_promise :: "child_event list \<Rightarrow> unit promise" where
  "runCommand_promise evs = foldl (\<lambda>p ev. runCommand_on ev p) Pending evs"

text \<open>
  \<^verbatim>\<open>runCommandWithOutput\<close> (lines 40-62) keeps two buffers and registers four listeners:
  \<^verbatim>\<open>'data'\<close> on each pipe, \<^verbatim>\<open>'close'\<close> and \<^verbatim>\<open>'error'\<close>. The object it resolves with is
  built when \<^verbatim>\<open>'close'\<close> arrives, from the buffers as they are then.
\<close>

record cmd_output =
  code :: exit_code
  stdout :: string
  stderr :: string

record capture =
  out_buf :: string
  err_buf :: string
  settled :: "cmd_output promise"

fun runCommandWithOutput_on :: "child_event \<Rightarrow> capture \<Rightarrow> capture" where
  "runCommandWithOutput_on (StdoutData d) s = s\<lparr>out_buf := out_buf s @ d\<rparr>"
| "runCommandWithOutput_on (StderrData d) s = s\<lparr>err_buf := err_buf s @ d\<rparr>"
| "runCommandWithOutput_on (CloseEvent c) s =
     s\<lparr>settled := resolve \<lparr>code = c, stdout = out_buf s, stderr = err_buf s\<rparr> (settled s)\<rparr>"
| "runCommandWithOutput_on (ErrorEvent e) s = s\<lparr>settled := reject e (settled s)\<rparr>"

definition runCommandWithOutput_promise :: "child_event list \<Rightarrow> cmd_output promise" where
  "runCommandWithOutput_promise evs =
     settled (foldl (\<lambda>s ev. runCommandWithOutput_on ev s)
                \<lparr>out_buf = [], err_buf = [], settled = Pending\<rparr> evs)"

subsection \<open>The host and the world\<close>

text \<open>
  The host answers for everything outside the script: the platform name, the directory of
  the script file (\<^verbatim>\<open>__dirname\<close>), the directory the process was started in, what a
  simple shell command exits with and prints, the child behind each \<^verbatim>\<open>spawn\<close>, and
  whether a file call is refused. The script never reads \<open>cwd\<close>.
\<close>

record host =
  platform :: string
  dirname :: string
  cwd :: string
  shell :: "string \<Rightarrow> int \<times> string"
  spawn_child :: "string \<Rightarrow> string list \<Rightarrow> child"
  write_error :: "string \<Rightarrow> js_error option"
  unlink_error :: "string \<Rightarrow> js_error option"

text \<open>
  The actions of the script, as they appear in the trace. \<open>ChildClose\<close> and
  \<open>ChildError\<close> are the runs of the \<^verbatim>\<open>'close'\<close> and \<^verbatim>\<open>'error'\<close> listeners that let an
  \<^verbatim>\<open>await\<close> resume.
\<close>

datatype action =
    ConsoleLog "js_value list"
  | ConsoleError "js_value list"
  | ConsoleWarn "js_value list"
  | ExecSync string
  | Spawn string "string list"
  | ChildClose exit_code
  | ChildError js_error
  | WriteFileSync string string
  | UnlinkSync string
  | ProcessExit int

record world =
  disk :: "string set"
  trace :: "action list"

definition perform :: "action \<Rightarrow> world \<Rightarrow> world" where
  "perform a w = w\<lparr>trace := trace w @ [a]\<rparr>"

definition console_log :: "js_value list \<Rightarrow> world \<Rightarrow> world" where
  "console_log vs = perform (ConsoleLog vs)"

definition console_error :: "js_value list \<Rightarrow> world \<Rightarrow> world" where
  "console_error vs = perform (ConsoleError vs)"

definition console_warn :: "js_value list \<Rightarrow> world \<Rightarrow> world" where
  "console_warn vs = perform (ConsoleWarn vs)"

text \<open>Sequencing: the second statement runs only when the first completes normally.\<close>

definition and_then ::
  "'a completion \<times> world \<Rightarrow> ('a \<Rightarrow> world \<Rightarrow> 'b completion \<times> world) \<Rightarrow> 'b completion \<times> world" where
  "and_then r f =
     (case r of
        (Normal v, w) \<Rightarrow> f v w
      | (Throw e, w) \<Rightarrow> (Throw e, w)
      | (Stalled, w) \<Rightarrow> (Stalled, w))"

subsection \<open>Strings and paths\<close>

definition newline :: char where
  "newline = CHR 0x0A"

definition js_whitespace :: "char \<Rightarrow> bool" where
  "js_whitespace c = (c \<in> set [CHR 0x09, CHR 0x0A, CHR 0x0B, CHR 0x0C, CHR 0x0D, CHR 0x20])"

definition trim :: "string \<Rightarrow> string" where
  "trim s = rev (dropWhile js_whitespace (rev (dropWhile js_whitespace s)))"

text \<open>\<^verbatim>\<open>s.split('\n')[0]\<close>: the text before the first line feed.\<close>

definition first_line :: "string \<Rightarrow> string" where
  "first_line s = takeWhile (\<lambda>c. c \<noteq> newline) s"

text \<open>
  \<^verbatim>\<open>path.join\<close> on a normalised directory and plain names: the parts joined with the
  separator of the platform, none added after a directory that ends with one (a root).
\<close>

definition path_sep :: "host \<Rightarrow> char" where
  "path_sep h = (if platform h = ''win32'' then CHR 0x5C else CHR ''/'')"

definition join2 :: "char \<Rightarrow> string \<Rightarrow> string \<Rightarrow> string" where
  "join2 sep a b = (if a = [] then b else if last a = sep then a @ b else a @ sep # b)"

fun path_join :: "host \<Rightarrow> string list \<Rightarrow> string" where
  "path_join h [] = ''.''"
| "path_join h (p # ps) = foldl (join2 (path_sep h)) p ps"

text \<open>A path lies under a directory when it continues the directory past a separator.\<close>

definition is_under :: "host \<Rightarrow> string \<Rightarrow> string \<Rightarrow> bool" where
  "is_under h dir p =
     (let d = (if dir \<noteq> [] \<and> last dir = path_sep h then dir else dir @ [path_sep h])
      in prefix d p \<and> p \<noteq> d)"

subsection \<open>\<^verbatim>\<open>execSync\<close> and the interpreter lookup\<close>

text \<open>
  \<^verbatim>\<open>execSync\<close> hands the command line to a shell. The command lines of the script use one
  shell operator, \<^verbatim>\<open>||\<close>: the commands run from the left until one exits with 0, all of
  them print into the same pipe, and the exit status is that of the last one run.
  \<^verbatim>\<open>execSync\<close> throws when that status is not 0 and returns the output otherwise.
\<close>

fun split_or :: "string \<Rightarrow> string list" where
  "split_or [] = [[]]"
| "split_or [a] = [[a]]"
| "split_or (a # b # cs) =
     (if a = CHR ''|'' \<and> b = CHR ''|'' then [] # split_or cs
      else (case split_or (b # cs) of [] \<Rightarrow> [[a]] | x # xs \<Rightarrow> (a # x) # xs))"

fun run_or :: "(string \<Rightarrow> int \<times> string) \<Rightarrow> string list \<Rightarrow> int \<times> string" where
  "run_or sh [] = (0, [])"
| "run_or sh [c] = sh (trim c)"
| "run_or sh (c # cs) =
     (case sh (trim c) of
        (st, out) \<Rightarrow>
          if st = 0 then (st, out)
          else (case run_or sh cs of (st', out') \<Rightarrow> (st', out @ out')))"

definition execSync :: "host \<Rightarrow> string \<Rightarrow> world \<Rightarrow> (js_error + string) \<times> world" where
  "execSync h command w =
     (case run_or (shell h) (split_or command) of
        (st, out) \<Rightarrow>
          (if st = 0 then Inr out else Inl (Error (''Command failed: '' @ command)),
           perform (ExecSync command) w))"

definition not_found :: js_error where
  "not_found = Error ''Python not found. Please install Python and add it to your PATH.''"

text \<open>Lines 14-23: the \<^verbatim>\<open>catch\<close> block of \<^verbatim>\<open>getPythonPath\<close>.\<close>

definition getPythonPath_where :: "host \<Rightarrow> world \<Rightarrow> (js_error + string) \<times> world" where
  "getPythonPath_where h w =
     (case execSync h ''where python'' w of
        (Inl windowsError, w1) \<Rightarrow> (Inl not_found, w1)
      | (Inr out, w1) \<Rightarrow>
          (let pythonPath = trim (first_line out)
           in if pythonPath = [] then (Inl not_found, w1) else (Inr pythonPath, w1)))"

text \<open>Lines 5-25.\<close>

definition getPythonPath :: "host \<Rightarrow> world \<Rightarrow> (js_error + string) \<times> world" where
  "getPythonPath h w =
     (case execSync h ''which python3 || which python'' w of
        (Inl error, w1) \<Rightarrow> getPythonPath_where h w1
      | (Inr out, w1) \<Rightarrow>
          (let pythonPath = trim out
           in if pythonPath = [] then getPythonPath_where h w1 else (Inr pythonPath, w1)))"

subsection \<open>The runners and the file calls in the world\<close>

fun first_close :: "child_event list \<Rightarrow> exit_code option" where
  "first_close [] = None"
| "first_close (CloseEvent c # evs) = Some c"
| "first_close (_ # evs) = first_close evs"

fun first_settling :: "child_event list \<Rightarrow> action option" where
  "first_settling [] = None"
| "first_settling (CloseEvent c # evs) = Some (ChildClose c)"
| "first_settling (ErrorEvent e # evs) = Some (ChildError e)"
| "first_settling (_ # evs) = first_settling evs"

definition runCommand :: "host \<Rightarrow> string \<Rightarrow> string list \<Rightarrow> world \<Rightarrow> unit promise \<times> world" where
  "runCommand h command args w =
     (let process = spawn_child h command args;
          w1 = perform (Spawn command args) w;
          w2 = w1\<lparr>disk := disk_effect process (disk w1)\<rparr>
      in (runCommand_promise (events process),
          case first_close (events process) of
            None \<Rightarrow> w2
          | Some c \<Rightarrow> perform (ChildClose c) w2))"

definition runCommandWithOutput ::
  "host \<Rightarrow> string \<Rightarrow> string list \<Rightarrow> world \<Rightarrow> cmd_output promise \<times> world" where
  "runCommandWithOutput h command args w =
     (let process = spawn_child h command args;
          w1 = perform (Spawn command args) w;
          w2 = w1\<lparr>disk := disk_effect process (disk w1)\<rparr>
      in (runCommandWithOutput_promise (events process),
          case first_settling (events process) of
            None \<Rightarrow> w2
          | Some a \<Rightarrow> perform a w2))"

text \<open>
  \<^verbatim>\<open>fs.writeFileSync\<close> creates the file unless the host refuses; \<^verbatim>\<open>fs.unlinkSync\<close>
  removes it unless it is not there or the host refuses. A refused call throws and
  leaves the disk as it was.
\<close>

definition writeFileSync :: "host \<Rightarrow> string \<Rightarrow> string \<Rightarrow> world \<Rightarrow> unit completion \<times> world" where
  "writeFileSync h path data w =
     (let w1 = perform (WriteFileSync path data) w
      in case write_error h path of
           Some e \<Rightarrow> (Throw e, w1)
         | None \<Rightarrow> (Normal (), w1\<lparr>disk := insert path (disk w1)\<rparr>))"

definition unlinkSync :: "host \<Rightarrow> string \<Rightarrow> world \<Rightarrow> unit completion \<times> world" where
  "unlinkSync h path w =
     (let w1 = perform (UnlinkSync path) w
      in if path \<notin> disk w1 then (Throw (Error ''ENOENT: no such file or directory''), w1)
         else case unlink_error h path of
                Some e \<Rightarrow> (Throw e, w1)
              | None \<Rightarrow> (Normal (), w1\<lparr>disk := disk w1 - {path}\<rparr>))"

subsection \<open>The model download\<close>

definition quoted :: "string \<Rightarrow> string" where
  "quoted s = CHR 0x27 # s @ [CHR 0x27]"

definition downloadScript :: string where
  \<open>downloadScript = newline # concat (map (\<lambda>l. l @ [newline])
     [''import easyocr'',
      ''import sys'',
      [],
      ''try:'',
      ''    print("Initializing EasyOCR Reader with English language...")'',
      ''    reader = easyocr.Reader(['' @ quoted ''en'' @ ''], gpu=False)'',
      ''    print("Models downloaded successfully!")'',
      ''    print("EasyOCR is ready to use.")'',
      ''except Exception as e:'',
      ''    print(f"Error downloading models: {e}", file=sys.stderr)'',
      ''    sys.exit(1)''])\<close>

text \<open>Lines 88-96: the body of the inner \<^verbatim>\<open>try\<close>.\<close>

definition download_run :: "host \<Rightarrow> string \<Rightarrow> string \<Rightarrow> world \<Rightarrow> unit completion \<times> world" where
  "download_run h venvPythonPath scriptPath w =
     (case runCommandWithOutput h venvPythonPath [scriptPath] w of
        (p, w1) \<Rightarrow>
          and_then (await p, w1) (\<lambda>result w2.
            if code result \<noteq> Some 0
            then (Throw (Error ''Failed to download EasyOCR models''),
                  console_error [Str ''Error downloading models:'', Str (stderr result)] w2)
            else (Normal (),
                  console_log [Str ''EasyOCR models setup complete!'']
                    (console_log [Str (stdout result)] w2))))"

text \<open>Lines 97-104: the \<^verbatim>\<open>finally\<close> block; what \<^verbatim>\<open>unlinkSync\<close> throws is dropped.\<close>

definition download_cleanup :: "host \<Rightarrow> string \<Rightarrow> world \<Rightarrow> world" where
  "download_cleanup h scriptPath w = snd (unlinkSync h scriptPath w)"

text \<open>
  Lines 65-104: the outer \<^verbatim>\<open>try\<close> block. The \<^verbatim>\<open>finally\<close> block runs when the inner
  block completes or throws, and the completion of the inner block stands.
\<close>

definition download_try :: "host \<Rightarrow> string \<Rightarrow> world \<Rightarrow> unit completion \<times> world" where
  "download_try h venvPythonPath w =
     (let w1 = console_log [Str (newline # ''Downloading EasyOCR models...'')] w;
          w2 = console_log [Str ''This may take a few minutes on first run...''] w1;
          scriptPath = path_join h [dirname h, ''download_models_temp.py'']
      in and_then (writeFileSync h scriptPath downloadScript w2) (\<lambda>_ w3.
           case download_run h venvPythonPath scriptPath w3 of
             (Stalled, w4) \<Rightarrow> (Stalled, w4)
           | (c, w4) \<Rightarrow> (c, download_cleanup h scriptPath w4)))"

text \<open>Lines 64-109, with the \<^verbatim>\<open>catch\<close> block of lines 105-108.\<close>

definition downloadEasyOCRModels :: "host \<Rightarrow> string \<Rightarrow> world \<Rightarrow> unit completion \<times> world" where
  "downloadEasyOCRModels h venvPythonPath w =
     (case download_try h venvPythonPath w of
        (Throw error, w1) \<Rightarrow>
          (Normal (),
           console_warn [Str ''Models will be downloaded automatically on first use.'']
             (console_error [Str ''Error downloading EasyOCR models:'', Str (message error)] w1))
      | (c, w1) \<Rightarrow> (c, w1))"

subsection \<open>The set-up\<close>

definition requirements :: "string list" where
  "requirements = [''easyocr'', ''torch'', ''torchvision'']"

text \<open>Lines 140-143: the loop over the requirements.\<close>

fun install_requirements :: "host \<Rightarrow> string \<Rightarrow> string list \<Rightarrow> world \<Rightarrow> unit completion \<times> world" where
  "install_requirements h venvPythonPath [] w = (Normal (), w)"
| "install_requirements h venvPythonPath (req # reqs) w =
     (let w1 = console_log [Str (''Installing '' @ req @ ''...'')] w
      in case runCommand h venvPythonPath [''-m'', ''pip'', ''install'', req] w1 of
           (p, w2) \<Rightarrow>
             and_then (await p, w2) (\<lambda>_ w3. install_requirements h venvPythonPath reqs w3))"

definition venv_python :: "host \<Rightarrow> string \<Rightarrow> string" where
  "venv_python h venvPath =
     (if platform h = ''win32'' then path_join h [venvPath, ''Scripts'', ''python.exe'']
      else path_join h [venvPath, ''bin'', ''python''])"

text \<open>Lines 123-156: the \<^verbatim>\<open>try\<close> block of \<^verbatim>\<open>setup\<close>.\<close>

definition setup_try :: "host \<Rightarrow> string \<Rightarrow> string \<Rightarrow> world \<Rightarrow> unit completion \<times> world" where
  "setup_try h pythonPath venvPath w =
     (let w1 = console_log [Str ''Setting up Python environment...''] w;
          w2 = console_log [Str (''Using Python at: '' @ pythonPath)] w1;
          w3 = console_log [Str ''Creating virtual environment...''] w2
      in case runCommand h pythonPath [''-m'', ''venv'', venvPath] w3 of
           (p, w4) \<Rightarrow>
      and_then (await p, w4) (\<lambda>_ w5.
        let venvPythonPath = venv_python h venvPath;
            w6 = console_log [Str ''Upgrading pip...''] w5
        in case runCommand h venvPythonPath [''-m'', ''pip'', ''install'', ''--upgrade'', ''pip''] w6 of
             (p', w7) \<Rightarrow>
      and_then (await p', w7) (\<lambda>_ w8.
      and_then (install_requirements h venvPythonPath requirements w8) (\<lambda>_ w9.
        let w10 = console_log [Str ''Python dependencies installation complete!''] w9
        in
      and_then (downloadEasyOCRModels h venvPythonPath w10) (\<lambda>_ w11.
        let w12 = console_log [Str (newline # ''Python environment setup complete!'')] w11;
            w13 = console_log [Str ''To activate the virtual environment, run:''] w12
        in (Normal (),
            if platform h = ''win32''
            then console_log [Str (path_join h [venvPath, ''Scripts'', ''activate.bat''])] w13
            else console_log [Str (''source '' @ path_join h [venvPath, ''bin'', ''activate''])] w13))))))"

text \<open>
  How the script ends: it called \<^verbatim>\<open>process.exit\<close>, or it ran to its end (the process
  then leaves with code 0, nothing having set another), or it waits for a promise that
  never settles.
\<close>

datatype status = Exited int | Finished | Hung

definition exit_code_of :: "status \<Rightarrow> int option" where
  "exit_code_of s = (case s of Exited n \<Rightarrow> Some n | Finished \<Rightarrow> Some 0 | Hung \<Rightarrow> None)"

definition process_exit :: "int \<Rightarrow> world \<Rightarrow> status \<times> world" where
  "process_exit n w = (Exited n, perform (ProcessExit n) w)"

text \<open>Lines 121-161: the function \<^verbatim>\<open>setup\<close>, with its \<^verbatim>\<open>catch\<close> block.\<close>

definition setup_fn :: "host \<Rightarrow> string \<Rightarrow> string \<Rightarrow> world \<Rightarrow> status \<times> world" where
  "setup_fn h pythonPath venvPath w =
     (case setup_try h pythonPath venvPath w of
        (Normal _, w1) \<Rightarrow> (Finished, w1)
      | (Throw error, w1) \<Rightarrow>
          process_exit 1 (console_error [Str ''Error setting up Python environment:'', Err error] w1)
      | (Stalled, w1) \<Rightarrow> (Hung, w1))"

text \<open>Lines 111-167: the script.\<close>

definition script :: "host \<Rightarrow> world \<Rightarrow> status \<times> world" where
  "script h w =
     (case getPythonPath h w of
        (Inl error, w1) \<Rightarrow> process_exit 1 (console_error [Str ''Error:'', Str (message error)] w1)
      | (Inr pythonPath, w1) \<Rightarrow> setup_fn h pythonPath (path_join h [dirname h, ''venv'']) w1)"

definition start :: "string set \<Rightarrow> world" where
  "start d = \<lparr>disk = d, trace = []\<rparr>"

definition run :: "host \<Rightarrow> string set \<Rightarrow> status \<times> world" where
  "run h d = script h (start d)"

subsection \<open>Reading a trace\<close>

fun spawned :: "action list \<Rightarrow> (string \<times> string list) list" where
  "spawned [] = []"
| "spawned (Spawn command args # t) = (command, args) # spawned t"
| "spawned (_ # t) = spawned t"

fun executed :: "action list \<Rightarrow> string list" where
  "executed [] = []"
| "executed (ExecSync command # t) = command # executed t"
| "executed (_ # t) = executed t"

fun file_calls :: "action list \<Rightarrow> action list" where
  "file_calls [] = []"
| "file_calls (WriteFileSync path data # t) = WriteFileSync path data # file_calls t"
| "file_calls (UnlinkSync path # t) = UnlinkSync path # file_calls t"
| "file_calls (_ # t) = file_calls t"

fun exits :: "action list \<Rightarrow> int list" where
  "exits [] = []"
| "exits (ProcessExit n # t) = n # exits t"
| "exits (_ # t) = exits t"

fun errors_logged :: "action list \<Rightarrow> js_value list list" where
  "errors_logged [] = []"
| "errors_logged (ConsoleError vs # t) = vs # errors_logged t"
| "errors_logged (_ # t) = errors_logged t"

text \<open>
  No two children at once: walking the trace with a flag that says whether a child is
  running, every \<open>Spawn\<close> finds the flag down, and only the \<^verbatim>\<open>'close'\<close> of the running
  child lowers it.
\<close>

fun no_overlap :: "bool \<Rightarrow> action list \<Rightarrow> bool" where
  "no_overlap running [] = True"
| "no_overlap running (Spawn command args # t) = (\<not> running \<and> no_overlap True t)"
| "no_overlap running (ChildClose c # t) = no_overlap False t"
| "no_overlap running (_ # t) = no_overlap running t"

subsection \<open>The installation steps\<close>

text \<open>
  The commands of lines 128, 137 and 142 in the order of the program text, and the
  command of line 88 after them.
\<close>

definition venvPath :: "host \<Rightarrow> string" where
  "venvPath h = path_join h [dirname h, ''venv'']"

definition scriptPath :: "host \<Rightarrow> string" where
  "scriptPath h = path_join h [dirname h, ''download_models_temp.py'']"

definition install_steps :: "host \<Rightarrow> string \<Rightarrow> (string \<times> string list) list" where
  "install_steps h pythonPath =
     (pythonPath, [''-m'', ''venv'', venvPath h])
     # (venv_python h (venvPath h), [''-m'', ''pip'', ''install'', ''--upgrade'', ''pip''])
     # map (\<lambda>req. (venv_python h (venvPath h), [''-m'', ''pip'', ''install'', req])) requirements"

definition download_step :: "host \<Rightarrow> string \<times> string list" where
  "download_step h = (venv_python h (venvPath h), [scriptPath h])"

definition child_of :: "host \<Rightarrow> string \<times> string list \<Rightarrow> child" where
  "child_of h step = spawn_child h (fst step) (snd step)"

definition step_promise :: "host \<Rightarrow> string \<times> string list \<Rightarrow> unit promise" where
  "step_promise h step = runCommand_promise (events (child_of h step))"

definition disk_after :: "host \<Rightarrow> (string \<times> string list) list \<Rightarrow> string set \<Rightarrow> string set" where
  "disk_after h steps d = foldl (\<lambda>d step. disk_effect (child_of h step) d) d steps"

subsection \<open>Reading the events of a child\<close>

fun is_data :: "child_event \<Rightarrow> bool" where
  "is_data (StdoutData d) = True"
| "is_data (StderrData d) = True"
| "is_data _ = False"

fun stdout_data :: "child_event list \<Rightarrow> string" where
  "stdout_data [] = []"
| "stdout_data (StdoutData d # evs) = d @ stdout_data evs"
| "stdout_data (_ # evs) = stdout_data evs"

fun stderr_data :: "child_event list \<Rightarrow> string" where
  "stderr_data [] = []"
| "stderr_data (StderrData d # evs) = d @ stderr_data evs"
| "stderr_data (_ # evs) = stderr_data evs"

subsection \<open>The lookups, as the interface describes them\<close>

text \<open>
  What the two lookups find, read off the answers of the host: the Unix lookup is
  \<^verbatim>\<open>which python3\<close> and, when that fails, \<^verbatim>\<open>which python\<close>; the Windows lookup is the
  first line of \<^verbatim>\<open>where python\<close>. A lookup that fails or prints only white space finds
  nothing.
\<close>

definition nonblank :: "string \<Rightarrow> string option" where
  "nonblank s = (if s = [] then None else Some s)"

definition unix_lookup :: "host \<Rightarrow> string option" where
  "unix_lookup h =
     (case shell h ''which python3'' of
        (st, out) \<Rightarrow>
          if st = 0 then nonblank (trim out)
          else (case shell h ''which python'' of
                  (st', out') \<Rightarrow> if st' = 0 then nonblank (trim (out @ out')) else None))"

definition windows_lookup :: "host \<Rightarrow> string option" where
  "windows_lookup h =
     (case shell h ''where python'' of
        (st, out) \<Rightarrow> if st = 0 then nonblank (trim (first_line out)) else None)"

text \<open>Lines 152-156: the line printed last.\<close>

definition activation_hint :: "host \<Rightarrow> string" where
  "activation_hint h =
     (if platform h = ''win32'' then path_join h [venvPath h, ''Scripts'', ''activate.bat'']
      else ''source '' @ path_join h [venvPath h, ''bin'', ''activate''])"

subsection \<open>Example hosts\<close>

text \<open>
  A Linux machine with the package in \<^verbatim>\<open>/opt/app\<close>, started from \<^verbatim>\<open>/home/user\<close>, on
  which every command succeeds; then the same machine with one thing going wrong.
\<close>

definition quiet_child :: child where
  "quiet_child = \<lparr>events = [CloseEvent (Some 0)], disk_effect = (\<lambda>d. d)\<rparr>"

definition linux_host :: host where
  "linux_host =
     \<lparr>platform = ''linux'', dirname = ''/opt/app'', cwd = ''/home/user'',
      shell = (\<lambda>c. if c = ''which python3'' then (0, ''/usr/bin/python3'' @ [newline]) else (1, [])),
      spawn_child = (\<lambda>command args.
        if args = [''-m'', ''venv'', ''/opt/app/venv'']
        then \<lparr>events = [CloseEvent (Some 0)], disk_effect = insert ''/opt/app/venv''\<rparr>
        else quiet_child),
      write_error = (\<lambda>path. None),
      unlink_error = (\<lambda>path. None)\<rparr>"

definition torch_fails :: host where
  "torch_fails = linux_host\<lparr>spawn_child := (\<lambda>command args.
     if args = [''-m'', ''pip'', ''install'', ''torch'']
     then \<lparr>events = [CloseEvent (Some 1)], disk_effect = (\<lambda>d. d)\<rparr>
     else spawn_child linux_host command args)\<rparr>"

definition download_fails :: host where
  "download_fails = linux_host\<lparr>spawn_child := (\<lambda>command args.
     if args = [''/opt/app/download_models_temp.py'']
     then \<lparr>events = [StdoutData ''Initializing'', StderrData ''offline'', CloseEvent (Some 1)],
           disk_effect = (\<lambda>d. d)\<rparr>
     else spawn_child linux_host command args)\<rparr>"

definition locked_host :: host where
  "locked_host = linux_host\<lparr>unlink_error := (\<lambda>path. Some (Error ''EPERM: operation not permitted''))\<rparr>"




section \<open>Properties\<close>

subsection \<open>Decimal strings\<close>










lemma runCommand_settled_stays:
  "p \<noteq> Pending \<Longrightarrow> foldl (\<lambda>p ev. runCommand_on ev p) p evs = p"
proof (induction evs arbitrary: p)
  case Nil
  then show ?case by simp
next
  case (Cons ev evs)
  from Cons.prems have "runCommand_on ev p = p"
    by (cases ev; cases p) (simp_all add: resolve_def reject_def)
  with Cons show ?case by simp
qed

lemma runCommand_promise_first_close:
  "runCommand_promise evs =
     (case first_close evs of
        None \<Rightarrow> Pending
      | Some c \<Rightarrow> if c \<noteq> Some 0
                  then Rejected (Error (''Command failed with exit code '' @ string_of_code c))
                  else Fulfilled ())"
proof (induction evs)
  case Nil
  show ?case by (simp add: runCommand_promise_def)
next
  case (Cons ev evs)
  show ?case
  proof (cases ev)
    case (CloseEvent c)
    then show ?thesis
      by (simp add: runCommand_promise_def resolve_def reject_def runCommand_settled_stays)
  qed (use Cons in \<open>simp_all add: runCommand_promise_def\<close>)
qed


subsection \<open>The promise of each runner\<close>


lemma captured_settled_stays:
  "settled s \<noteq> Pending \<Longrightarrow> settled (foldl (\<lambda>s ev. runCommandWithOutput_on ev s) s evs) = settled s"
proof (induction evs arbitrary: s)
  case Nil
  show ?case by simp
next
  case (Cons ev evs)
  from Cons.prems have "settled (runCommandWithOutput_on ev s) = settled s"
    by (cases ev; cases "settled s") (simp_all add: resolve_def reject_def)
  with Cons show ?case by simp
qed

lemma captured_data_only:
  "list_all is_data pre \<Longrightarrow>
   foldl (\<lambda>s ev. runCommandWithOutput_on ev s) s pre =
     s\<lparr>out_buf := out_buf s @ stdout_data pre, err_buf := err_buf s @ stderr_data pre\<rparr>"
proof (induction pre arbitrary: s)
  case Nil
  show ?case by simp
next
  case (Cons ev pre)
  then show ?case by (cases ev) simp_all
qed

lemma captured_close:
  assumes "list_all is_data pre"
  shows "runCommandWithOutput_promise (pre @ CloseEvent c # post) =
           Fulfilled \<lparr>code = c, stdout = stdout_data pre, stderr = stderr_data pre\<rparr>"
  unfolding runCommandWithOutput_promise_def
  by (simp add: captured_data_only[OF assms] captured_settled_stays resolve_def)

lemma captured_error:
  assumes "list_all is_data pre"
  shows "runCommandWithOutput_promise (pre @ ErrorEvent e # post) = Rejected e"
  unfolding runCommandWithOutput_promise_def
  by (simp add: captured_data_only[OF assms] captured_settled_stays reject_def)



lemma events_split:
  "list_all is_data evs \<or>
   (\<exists>pre c post. evs = pre @ CloseEvent c # post \<and> list_all is_data pre) \<or>
   (\<exists>pre e post. evs = pre @ ErrorEvent e # post \<and> list_all is_data pre)"
proof (induction evs)
  case Nil
  show ?case by simp
next
  case (Cons ev evs)
  show ?case
  proof (cases ev)
    case (CloseEvent c)
    then have "ev # evs = [] @ CloseEvent c # evs \<and> list_all is_data []" by simp
    then show ?thesis by blast
  next
    case (ErrorEvent e)
    then have "ev # evs = [] @ ErrorEvent e # evs \<and> list_all is_data []" by simp
    then show ?thesis by blast
  next
    case (StdoutData d)
    from Cons show ?thesis
    proof (elim disjE exE conjE)
      assume "list_all is_data evs"
      with StdoutData show ?thesis by simp
    next
      fix pre c post assume "evs = pre @ CloseEvent c # post" "list_all is_data pre"
      with StdoutData have "ev # evs = (ev # pre) @ CloseEvent c # post \<and> list_all is_data (ev # pre)" by simp
      then show ?thesis by blast
    next
      fix pre e post assume "evs = pre @ ErrorEvent e # post" "list_all is_data pre"
      with StdoutData have "ev # evs = (ev # pre) @ ErrorEvent e # post \<and> list_all is_data (ev # pre)" by simp
      then show ?thesis by blast
    qed
  next
    case (StderrData d)
    from Cons show ?thesis
    proof (elim disjE exE conjE)
      assume "list_all is_data evs"
      with StderrData show ?thesis by simp
    next
      fix pre c post assume "evs = pre @ CloseEvent c # post" "list_all is_data pre"
      with StderrData have "ev # evs = (ev # pre) @ CloseEvent c # post \<and> list_all is_data (ev # pre)" by simp
      then show ?thesis by blast
    next
      fix pre e post assume "evs = pre @ ErrorEvent e # post" "list_all is_data pre"
      with StderrData have "ev # evs = (ev # pre) @ ErrorEvent e # post \<and> list_all is_data (ev # pre)" by simp
      then show ?thesis by blast
    qed
  qed
qed

lemma captured_pending:
  "list_all is_data evs \<Longrightarrow> runCommandWithOutput_promise evs = Pending"
  unfolding runCommandWithOutput_promise_def by (simp add: captured_data_only)





subsection \<open>What each call adds to the world\<close>

lemma spawned_append: "spawned (xs @ ys) = spawned xs @ spawned ys"
  by (induction xs rule: spawned.induct) simp_all
lemma executed_append: "executed (xs @ ys) = executed xs @ executed ys"
  by (induction xs rule: executed.induct) simp_all
lemma file_calls_append: "file_calls (xs @ ys) = file_calls xs @ file_calls ys"
  by (induction xs rule: file_calls.induct) simp_all
lemma exits_append: "exits (xs @ ys) = exits xs @ exits ys"
  by (induction xs rule: exits.induct) simp_all
lemma errors_logged_append: "errors_logged (xs @ ys) = errors_logged xs @ errors_logged ys"
  by (induction xs rule: errors_logged.induct) simp_all

lemmas trace_append = spawned_append executed_append file_calls_append exits_append errors_logged_append

lemma observers_execs:
  "spawned (map ExecSync cmds) = []" "file_calls (map ExecSync cmds) = []"
  "exits (map ExecSync cmds) = []" "errors_logged (map ExecSync cmds) = []"
  "executed (map ExecSync cmds) = cmds"
  by (induction cmds) simp_all

lemma no_overlap_execs: "no_overlap b (map ExecSync cmds @ t) = no_overlap b t"
  by (induction cmds) simp_all

lemma execSync_world: "snd (execSync h command w) = w\<lparr>trace := trace w @ [ExecSync command]\<rparr>"
  by (simp add: execSync_def perform_def split: prod.splits)

lemma getPythonPath_where_world:
  "snd (getPythonPath_where h w) = w\<lparr>trace := trace w @ [ExecSync ''where python'']\<rparr>"
  using execSync_world[of h "''where python''" w]
  by (auto simp: getPythonPath_where_def Let_def split: prod.splits sum.splits)

lemma getPythonPath_world:
  "\<exists>cmds. snd (getPythonPath h w) = w\<lparr>trace := trace w @ map ExecSync cmds\<rparr>"
proof -
  let ?c = "''which python3 || which python''"
  obtain r w1 where e: "execSync h ?c w = (r, w1)" by (cases "execSync h ?c w")
  with execSync_world[of h ?c w] have w1: "w1 = w\<lparr>trace := trace w @ [ExecSync ?c]\<rparr>" by simp
  have a: "w1 = w\<lparr>trace := trace w @ map ExecSync [?c]\<rparr>" using w1 by simp
  have b: "snd (getPythonPath_where h w1) = w\<lparr>trace := trace w @ map ExecSync [?c, ''where python'']\<rparr>"
    using getPythonPath_where_world[of h w1] w1 by simp
  have "snd (getPythonPath h w) = w1 \<or> snd (getPythonPath h w) = snd (getPythonPath_where h w1)"
    using e by (auto simp: getPythonPath_def Let_def split: sum.splits)
  with a b show ?thesis by metis
qed

lemma runCommand_world:
  "runCommand h c a w =
     (step_promise h (c, a),
      w\<lparr>disk := disk_effect (child_of h (c, a)) (disk w),
        trace := trace w @ Spawn c a #
          (case first_close (events (child_of h (c, a))) of None \<Rightarrow> [] | Some x \<Rightarrow> [ChildClose x])\<rparr>)"
  by (simp add: runCommand_def step_promise_def child_of_def perform_def Let_def split: option.splits)

lemma step_fulfilled:
  "step_promise h s = Fulfilled () \<Longrightarrow> first_close (events (child_of h s)) = Some (Some 0)"
  by (auto simp: step_promise_def runCommand_promise_first_close split: option.splits if_splits)

lemma step_rejected:
  "step_promise h s = Rejected e \<Longrightarrow> \<exists>c. first_close (events (child_of h s)) = Some c"
  by (auto simp: step_promise_def runCommand_promise_first_close split: option.splits if_splits)

lemma step_pending:
  "step_promise h s = Pending \<longleftrightarrow> first_close (events (child_of h s)) = None"
  by (auto simp: step_promise_def runCommand_promise_first_close split: option.splits if_splits)

lemma install_steps_length: "length (install_steps h py) = 5"
  by (simp add: install_steps_def requirements_def)

lemma script_unfold:
  "script h w =
     (case getPythonPath h w of
        (Inl error, w1) \<Rightarrow> process_exit 1 (console_error [Str ''Error:'', Str (message error)] w1)
      | (Inr pythonPath, w1) \<Rightarrow> setup_fn h pythonPath (venvPath h) w1)"
  by (simp only: script_def venvPath_def)

subsection \<open>Where the set-up stops\<close>

lemma run_after_lookup:
  assumes "fst (getPythonPath h (start d)) = Inr py"
  shows "\<exists>cmds. run h d = setup_fn h py (venvPath h) \<lparr>disk = d, trace = map ExecSync cmds\<rparr>"
proof -
  obtain cmds where w1: "snd (getPythonPath h (start d)) = (start d)\<lparr>trace := trace (start d) @ map ExecSync cmds\<rparr>"
    using getPythonPath_world by blast
  have "run h d = setup_fn h py (venvPath h) \<lparr>disk = d, trace = map ExecSync cmds\<rparr>"
    using assms w1 by (cases "getPythonPath h (start d)") (simp add: run_def script_unfold start_def)
  then show ?thesis ..
qed

lemma step_not_fulfilled_cases:
  assumes "step_promise h s \<noteq> Fulfilled ()"
  obtains "step_promise h s = Pending" "first_close (events (child_of h s)) = None"
  | e c where "step_promise h s = Rejected e" "first_close (events (child_of h s)) = Some c"
  using assms step_pending[of h s] step_rejected[of h s]
  by (cases "step_promise h s") auto

lemma stopped_at_step:
  assumes py: "fst (getPythonPath h (start d)) = Inr py"
    and k: "k < length (install_steps h py)"
    and ok: "\<forall>j<k. step_promise h (install_steps h py ! j) = Fulfilled ()"
    and bad: "step_promise h (install_steps h py ! k) \<noteq> Fulfilled ()"
  shows "fst (run h d) = (case step_promise h (install_steps h py ! k) of Rejected e \<Rightarrow> Exited 1 | _ \<Rightarrow> Hung)"
    and "spawned (trace (snd (run h d))) = take (Suc k) (install_steps h py)"
    and "disk (snd (run h d)) = disk_after h (take (Suc k) (install_steps h py)) d"
    and "file_calls (trace (snd (run h d))) = []"
    and "no_overlap False (trace (snd (run h d)))"
    and "exits (trace (snd (run h d))) =
           (case step_promise h (install_steps h py ! k) of Rejected e \<Rightarrow> [1] | _ \<Rightarrow> [])"
    and "errors_logged (trace (snd (run h d))) =
           (case step_promise h (install_steps h py ! k) of
              Rejected e \<Rightarrow> [[Str ''Error setting up Python environment:'', Err e]] | _ \<Rightarrow> [])"
    and "step_promise h (install_steps h py ! k) = Rejected e \<Longrightarrow>
           last (trace (snd (run h d))) = ProcessExit 1 \<and>
           last (butlast (trace (snd (run h d)))) =
             ConsoleError [Str ''Error setting up Python environment:'', Err e]"
proof -
  obtain cmds where r: "run h d = setup_fn h py (venvPath h) \<lparr>disk = d, trace = map ExecSync cmds\<rparr>"
    using run_after_lookup[OF py] by blast
  let ?vp = "venv_python h (venvPath h)"
  let ?s0 = "(py, [''-m'', ''venv'', venvPath h])"
  let ?s1 = "(?vp, [''-m'', ''pip'', ''install'', ''--upgrade'', ''pip''])"
  let ?s2 = "(?vp, [''-m'', ''pip'', ''install'', ''easyocr''])"
  let ?s3 = "(?vp, [''-m'', ''pip'', ''install'', ''torch''])"
  let ?s4 = "(?vp, [''-m'', ''pip'', ''install'', ''torchvision''])"
  let ?steps = "[?s0, ?s1, ?s2, ?s3, ?s4]"
  have steps: "install_steps h py = ?steps"
    by (simp add: install_steps_def requirements_def)
  have okj: "\<And>j. j < k \<Longrightarrow> first_close (events (child_of h (?steps ! j))) = Some (Some 0)
      \<and> step_promise h (?steps ! j) = Fulfilled ()"
    using ok step_fulfilled steps by auto
  note b = bad[unfolded steps]
  note defs = r setup_fn_def setup_try_def runCommand_world and_then_def await_def console_log_def
          console_error_def perform_def process_exit_def trace_append observers_execs
          requirements_def steps Let_def disk_after_def no_overlap_execs
  from k consider "k = 0" | "k = 1" | "k = 2" | "k = 3" | "k = 4"
    by (simp add: install_steps_length) arith
  then have "let r = run h d; p = step_promise h (?steps ! k) in
      fst r = (case p of Rejected e \<Rightarrow> Exited 1 | _ \<Rightarrow> Hung)
    \<and> spawned (trace (snd r)) = take (Suc k) ?steps
    \<and> disk (snd r) = disk_after h (take (Suc k) ?steps) d
    \<and> file_calls (trace (snd r)) = []
    \<and> no_overlap False (trace (snd r))
    \<and> exits (trace (snd r)) = (case p of Rejected e \<Rightarrow> [1] | _ \<Rightarrow> [])
    \<and> errors_logged (trace (snd r)) =
           (case p of Rejected e \<Rightarrow> [[Str ''Error setting up Python environment:'', Err e]] | _ \<Rightarrow> [])
    \<and> (\<forall>e. p = Rejected e \<longrightarrow>
           last (trace (snd r)) = ProcessExit 1 \<and>
           last (butlast (trace (snd r))) =
             ConsoleError [Str ''Error setting up Python environment:'', Err e])"
  proof cases
    case 1
    show ?thesis using b unfolding 1
      by (rule step_not_fulfilled_cases) (simp_all add: defs butlast_append)
  next
    case 2
    show ?thesis using b okj[of 0] unfolding 2
      by (elim step_not_fulfilled_cases) (simp_all add: defs butlast_append)
  next
    case 3
    show ?thesis using b okj[of 0] okj[of 1] unfolding 3
      by (elim step_not_fulfilled_cases) (simp_all add: defs butlast_append)
  next
    case 4
    show ?thesis using b okj[of 0] okj[of 1] okj[of 2] unfolding 4
      by (elim step_not_fulfilled_cases) (simp_all add: defs butlast_append)
  next
    case 5
    show ?thesis using b okj[of 0] okj[of 1] okj[of 2] okj[of 3] unfolding 5
      by (elim step_not_fulfilled_cases) (simp_all add: defs butlast_append)
  qed
  then have all: "fst (run h d) = (case step_promise h (install_steps h py ! k) of Rejected e \<Rightarrow> Exited 1 | _ \<Rightarrow> Hung)
    \<and> spawned (trace (snd (run h d))) = take (Suc k) (install_steps h py)
    \<and> disk (snd (run h d)) = disk_after h (take (Suc k) (install_steps h py)) d
    \<and> file_calls (trace (snd (run h d))) = []
    \<and> no_overlap False (trace (snd (run h d)))
    \<and> exits (trace (snd (run h d))) =
           (case step_promise h (install_steps h py ! k) of Rejected e \<Rightarrow> [1] | _ \<Rightarrow> [])
    \<and> errors_logged (trace (snd (run h d))) =
           (case step_promise h (install_steps h py ! k) of
              Rejected e \<Rightarrow> [[Str ''Error setting up Python environment:'', Err e]] | _ \<Rightarrow> [])
    \<and> (\<forall>e. step_promise h (install_steps h py ! k) = Rejected e \<longrightarrow>
           last (trace (snd (run h d))) = ProcessExit 1 \<and>
           last (butlast (trace (snd (run h d)))) =
             ConsoleError [Str ''Error setting up Python environment:'', Err e])"
    unfolding steps Let_def .
  from all show "fst (run h d) = (case step_promise h (install_steps h py ! k) of Rejected e \<Rightarrow> Exited 1 | _ \<Rightarrow> Hung)" by blast
  from all show "spawned (trace (snd (run h d))) = take (Suc k) (install_steps h py)" by blast
  from all show "disk (snd (run h d)) = disk_after h (take (Suc k) (install_steps h py)) d" by blast
  from all show "file_calls (trace (snd (run h d))) = []" by blast
  from all show "no_overlap False (trace (snd (run h d)))" by blast
  from all show "exits (trace (snd (run h d))) =
           (case step_promise h (install_steps h py ! k) of Rejected e \<Rightarrow> [1] | _ \<Rightarrow> [])" by blast
  from all show "errors_logged (trace (snd (run h d))) =
           (case step_promise h (install_steps h py ! k) of
              Rejected e \<Rightarrow> [[Str ''Error setting up Python environment:'', Err e]] | _ \<Rightarrow> [])" by blast
  from all show "step_promise h (install_steps h py ! k) = Rejected e \<Longrightarrow>
           last (trace (snd (run h d))) = ProcessExit 1 \<and>
           last (butlast (trace (snd (run h d)))) =
             ConsoleError [Str ''Error setting up Python environment:'', Err e]" by blast
qed

subsection \<open>The interpreter lookup\<close>

lemma split_or_which:
  "split_or ''which python3 || which python'' = [''which python3 '', '' which python'']"
  by simp

lemma split_or_where: "split_or ''where python'' = [''where python'']"
  by simp

lemma trim_commands:
  "trim ''which python3 '' = ''which python3''"
  "trim '' which python'' = ''which python''"
  "trim ''where python'' = ''where python''"
  by (simp_all add: trim_def js_whitespace_def)

lemma execSync_which:
  "fst (execSync h ''which python3 || which python'' w) =
     (case shell h ''which python3'' of
        (st, out) \<Rightarrow>
          if st = 0 then Inr out
          else (case shell h ''which python'' of
                  (st', out') \<Rightarrow>
                    if st' = 0 then Inr (out @ out')
                    else Inl (Error (''Command failed: '' @ ''which python3 || which python''))))"
  unfolding execSync_def split_or_which
  by (simp add: trim_commands split: prod.splits)

lemma execSync_where:
  "fst (execSync h ''where python'' w) =
     (case shell h ''where python'' of
        (st, out) \<Rightarrow> if st = 0 then Inr out else Inl (Error (''Command failed: '' @ ''where python'')))"
  unfolding execSync_def split_or_where
  by (simp add: trim_commands split: prod.splits)

lemma getPythonPath_where_result:
  "getPythonPath_where h w =
     (case windows_lookup h of Some p \<Rightarrow> Inr p | None \<Rightarrow> Inl not_found,
      w\<lparr>trace := trace w @ [ExecSync ''where python'']\<rparr>)"
proof -
  obtain r w1 where e: "execSync h ''where python'' w = (r, w1)"
    by (cases "execSync h ''where python'' w")
  from e execSync_world[of h "''where python''" w]
  have w1: "w1 = w\<lparr>trace := trace w @ [ExecSync ''where python'']\<rparr>" by simp
  from e execSync_where[of h w]
  have r: "r = (case shell h ''where python'' of
        (st, out) \<Rightarrow> if st = 0 then Inr out else Inl (Error (''Command failed: '' @ ''where python'')))"
    by simp
  show ?thesis
    unfolding getPythonPath_where_def e w1 r
    by (simp add: windows_lookup_def nonblank_def Let_def split: prod.splits)
qed

lemma getPythonPath_result:
  "getPythonPath h w =
     (case unix_lookup h of
        Some p \<Rightarrow> Inr p
      | None \<Rightarrow> (case windows_lookup h of Some p \<Rightarrow> Inr p | None \<Rightarrow> Inl not_found),
      w\<lparr>trace := trace w @ map ExecSync
          (case unix_lookup h of
             Some p \<Rightarrow> [''which python3 || which python'']
           | None \<Rightarrow> [''which python3 || which python'', ''where python''])\<rparr>)"
proof -
  let ?c = "''which python3 || which python''"
  obtain r w1 where e: "execSync h ?c w = (r, w1)"
    by (cases "execSync h ?c w")
  from e execSync_world[of h ?c w]
  have w1: "w1 = w\<lparr>trace := trace w @ [ExecSync ?c]\<rparr>" by simp
  from e execSync_which[of h w]
  have r: "r = (case shell h ''which python3'' of
        (st, out) \<Rightarrow>
          if st = 0 then Inr out
          else (case shell h ''which python'' of
                  (st', out') \<Rightarrow>
                    if st' = 0 then Inr (out @ out')
                    else Inl (Error (''Command failed: '' @ ?c))))"
    by simp
  show ?thesis
    unfolding getPythonPath_def e w1 r getPythonPath_where_result
    by (simp add: unix_lookup_def nonblank_def Let_def split: prod.splits)
qed

lemma linux_lookup: "unix_lookup linux_host = Some ''/usr/bin/python3''"
  by (simp add: unix_lookup_def linux_host_def nonblank_def trim_def js_whitespace_def newline_def)

lemma linux_python:
  "shell h = shell linux_host \<Longrightarrow> fst (getPythonPath h w) = Inr ''/usr/bin/python3''"
proof -
  assume "shell h = shell linux_host"
  then have "unix_lookup h = unix_lookup linux_host" by (simp only: unix_lookup_def)
  then show ?thesis by (simp add: getPythonPath_result linux_lookup)
qed

lemma linux_paths:
  assumes "platform h = ''linux''" "dirname h = ''/opt/app''"
  shows "venvPath h = ''/opt/app/venv''"
    and "venv_python h ''/opt/app/venv'' = ''/opt/app/venv/bin/python''"
    and "scriptPath h = ''/opt/app/download_models_temp.py''"
    and "activation_hint h = ''source /opt/app/venv/bin/activate''"
  using assms
  by (simp_all add: venvPath_def venv_python_def scriptPath_def activation_hint_def path_sep_def join2_def)

subsection \<open>The example hosts, evaluated\<close>

lemma torch_fails_steps:
  "install_steps torch_fails ''/usr/bin/python3'' =
     [(''/usr/bin/python3'', [''-m'', ''venv'', ''/opt/app/venv'']),
      (''/opt/app/venv/bin/python'', [''-m'', ''pip'', ''install'', ''--upgrade'', ''pip'']),
      (''/opt/app/venv/bin/python'', [''-m'', ''pip'', ''install'', ''easyocr'']),
      (''/opt/app/venv/bin/python'', [''-m'', ''pip'', ''install'', ''torch'']),
      (''/opt/app/venv/bin/python'', [''-m'', ''pip'', ''install'', ''torchvision''])]"
proof -
  have "platform torch_fails = ''linux''" "dirname torch_fails = ''/opt/app''"
    by (simp_all add: torch_fails_def linux_host_def)
  from linux_paths(1,2)[OF this] show ?thesis
    by (simp add: install_steps_def requirements_def)
qed

lemma all_less_3: "(\<forall>j<(3::nat). P j) \<longleftrightarrow> P 0 \<and> P 1 \<and> P 2"
proof -
  have "\<And>j::nat. j < 3 \<longleftrightarrow> j = 0 \<or> j = 1 \<or> j = 2" by arith
  then show ?thesis by auto
qed

lemma all_less_5: "(\<forall>j<(5::nat). P j) \<longleftrightarrow> P 0 \<and> P 1 \<and> P 2 \<and> P 3 \<and> P 4"
proof -
  have "\<And>j::nat. j < 5 \<longleftrightarrow> j = 0 \<or> j = 1 \<or> j = 2 \<or> j = 3 \<or> j = 4" by arith
  then show ?thesis by auto
qed

lemma string_of_code_1: "string_of_code (Some 1) = ''1''"
  by (simp add: string_of_code_def string_of_int_def string_of_nat.simps[of "Suc 0"] digit_char_def)

lemma closes_with:
  "runCommand_promise [CloseEvent (Some 0)] = Fulfilled ()"
  "runCommand_promise [CloseEvent (Some 1)] = Rejected (Error ''Command failed with exit code 1'')"
  "runCommand_promise [ErrorEvent err] = Pending"
  by (simp_all add: runCommand_promise_def resolve_def reject_def string_of_code_1)

lemma torch_fails_promises:
  "\<forall>j<3. step_promise torch_fails (install_steps torch_fails ''/usr/bin/python3'' ! j) = Fulfilled ()"
  "step_promise torch_fails (install_steps torch_fails ''/usr/bin/python3'' ! 3) =
     Rejected (Error ''Command failed with exit code 1'')"
  unfolding torch_fails_steps all_less_3
  by (simp_all add: step_promise_def child_of_def torch_fails_def
        linux_host_def quiet_child_def closes_with)

subsection \<open>Fatal steps\<close>

text \<open>
  C1. When the interpreter was found and an installation step (creating the environment,
  upgrading the package manager, installing a package) is the first whose promise is
  rejected, the commands started are exactly the steps up to that one, so no later step and
  no download runs; the error is logged, and the last action is \<^verbatim>\<open>process.exit(1)\<close>.
\<close>

theorem fatal_install_step_stops_and_exits:
  assumes "fst (getPythonPath h (start d)) = Inr py"
    and "k < length (install_steps h py)"
    and "\<forall>j<k. step_promise h (install_steps h py ! j) = Fulfilled ()"
    and "step_promise h (install_steps h py ! k) = Rejected e"
  shows "spawned (trace (snd (run h d))) = take (Suc k) (install_steps h py) \<and>
         errors_logged (trace (snd (run h d))) =
           [[Str ''Error setting up Python environment:'', Err e]] \<and>
         last (butlast (trace (snd (run h d)))) =
           ConsoleError [Str ''Error setting up Python environment:'', Err e] \<and>
         last (trace (snd (run h d))) = ProcessExit 1 \<and>
         exits (trace (snd (run h d))) = [1] \<and>
         fst (run h d) = Exited 1 \<and>
         exit_code_of (fst (run h d)) = Some 1"
proof -
  from assms(4) have nf: "step_promise h (install_steps h py ! k) \<noteq> Fulfilled ()" by simp
  note s = stopped_at_step[OF assms(1) assms(2) assms(3) nf]
  from s(1) assms(4) have st: "fst (run h d) = Exited 1" by simp
  from s(6) assms(4) have ex: "exits (trace (snd (run h d))) = [1]" by simp
  from s(7) assms(4) have er: "errors_logged (trace (snd (run h d))) =
      [[Str ''Error setting up Python environment:'', Err e]]" by simp
  from s(2) er s(8)[OF assms(4)] ex st show ?thesis by (simp add: exit_code_of_def)
qed

theorem fatal_install_step_stops_and_exits_witness:
  "spawned (trace (snd (run torch_fails {}))) =
     [(''/usr/bin/python3'', [''-m'', ''venv'', ''/opt/app/venv'']),
      (''/opt/app/venv/bin/python'', [''-m'', ''pip'', ''install'', ''--upgrade'', ''pip'']),
      (''/opt/app/venv/bin/python'', [''-m'', ''pip'', ''install'', ''easyocr'']),
      (''/opt/app/venv/bin/python'', [''-m'', ''pip'', ''install'', ''torch''])] \<and>
   errors_logged (trace (snd (run torch_fails {}))) =
     [[Str ''Error setting up Python environment:'', Err (Error ''Command failed with exit code 1'')]] \<and>
   last (trace (snd (run torch_fails {}))) = ProcessExit 1 \<and>
   fst (run torch_fails {}) = Exited 1"
proof -
  have py: "fst (getPythonPath torch_fails (start {})) = Inr ''/usr/bin/python3''"
    by (rule linux_python) (simp add: torch_fails_def)
  have k: "3 < length (install_steps torch_fails ''/usr/bin/python3'')"
    by (simp add: install_steps_length)
  from fatal_install_step_stops_and_exits[OF py k torch_fails_promises]
  show ?thesis by (simp add: torch_fails_steps)
qed


text \<open>
  C9. On a fatal installation step nothing is rolled back: the script makes no file call
  on that path, and the disk at the exit with code 1 is the disk as the children that ran
  left it; an environment directory among their leavings is still there.
\<close>

theorem fatal_step_leaves_disk:
  assumes "fst (getPythonPath h (start d)) = Inr py"
    and "k < length (install_steps h py)"
    and "\<forall>j<k. step_promise h (install_steps h py ! j) = Fulfilled ()"
    and "step_promise h (install_steps h py ! k) = Rejected e"
  shows "fst (run h d) = Exited 1 \<and>
         file_calls (trace (snd (run h d))) = [] \<and>
         disk (snd (run h d)) = disk_after h (take (Suc k) (install_steps h py)) d \<and>
         (venvPath h \<in> disk_after h (take (Suc k) (install_steps h py)) d \<longrightarrow>
            venvPath h \<in> disk (snd (run h d)))"
proof -
  from assms(4) have nf: "step_promise h (install_steps h py ! k) \<noteq> Fulfilled ()" by simp
  note s = stopped_at_step[OF assms(1) assms(2) assms(3) nf]
  from s(1) assms(4) have "fst (run h d) = Exited 1" by simp
  with s(3) s(4) show ?thesis by simp
qed

theorem fatal_step_leaves_disk_witness:
  "fst (run torch_fails {}) = Exited 1 \<and>
   file_calls (trace (snd (run torch_fails {}))) = [] \<and>
   ''/opt/app/venv'' \<in> disk (snd (run torch_fails {}))"
proof -
  have py: "fst (getPythonPath torch_fails (start {})) = Inr ''/usr/bin/python3''"
    by (rule linux_python) (simp add: torch_fails_def)
  have k: "3 < length (install_steps torch_fails ''/usr/bin/python3'')"
    by (simp add: install_steps_length)
  have v: "venvPath torch_fails = ''/opt/app/venv''"
    by (rule linux_paths) (simp_all add: torch_fails_def linux_host_def)
  have "disk_after torch_fails (take (Suc 3) (install_steps torch_fails ''/usr/bin/python3'')) {} =
      {''/opt/app/venv''}"
    unfolding torch_fails_steps
    by (simp add: disk_after_def child_of_def torch_fails_def linux_host_def quiet_child_def)
  with fatal_step_leaves_disk[OF py k torch_fails_promises] v
  show ?thesis by simp
qed



subsection \<open>No interpreter\<close>






subsection \<open>The model download, in one equation\<close>

lemma first_settling_data: "list_all is_data pre \<Longrightarrow> first_settling (pre @ evs) = first_settling evs"
proof (induction pre)
  case Nil
  show ?case by simp
next
  case (Cons ev pre)
  then show ?case by (cases ev) simp_all
qed

lemma captured_cases:
  obtains (hangs) "runCommandWithOutput_promise evs = Pending" "first_settling evs = None"
  | (closes) r where "runCommandWithOutput_promise evs = Fulfilled r"
      "first_settling evs = Some (ChildClose (code r))"
  | (errors) e where "runCommandWithOutput_promise evs = Rejected e"
      "first_settling evs = Some (ChildError e)"
proof -
  from events_split[of evs] consider
      "list_all is_data evs"
    | pre c post where "evs = pre @ CloseEvent c # post" "list_all is_data pre"
    | pre e post where "evs = pre @ ErrorEvent e # post" "list_all is_data pre"
    by blast
  then show ?thesis
  proof cases
    case 1
    from first_settling_data[OF 1, of "[]"] have "first_settling evs = None" by simp
    with captured_pending[OF 1] hangs show ?thesis by blast
  next
    case 2
    from captured_close[OF 2(2), of c post] 2(1)
    have p: "runCommandWithOutput_promise evs =
        Fulfilled \<lparr>code = c, stdout = stdout_data pre, stderr = stderr_data pre\<rparr>" by simp
    from first_settling_data[OF 2(2), of "CloseEvent c # post"] 2(1)
    have "first_settling evs = Some (ChildClose c)" by simp
    with p closes[of "\<lparr>code = c, stdout = stdout_data pre, stderr = stderr_data pre\<rparr>"]
    show ?thesis by simp
  next
    case 3
    from captured_error[OF 3(2), of e post] 3(1)
    have p: "runCommandWithOutput_promise evs = Rejected e" by simp
    from first_settling_data[OF 3(2), of "ErrorEvent e # post"] 3(1)
    have "first_settling evs = Some (ChildError e)" by simp
    with p errors show ?thesis by blast
  qed
qed

lemma runCommandWithOutput_world:
  "runCommandWithOutput h c a w =
     (runCommandWithOutput_promise (events (child_of h (c, a))),
      w\<lparr>disk := disk_effect (child_of h (c, a)) (disk w),
        trace := trace w @ Spawn c a #
          (case first_settling (events (child_of h (c, a))) of None \<Rightarrow> [] | Some x \<Rightarrow> [x])\<rparr>)"
  by (simp add: runCommandWithOutput_def child_of_def perform_def Let_def split: option.splits)

lemma download_cleanup_world:
  "download_cleanup h p w =
     w\<lparr>disk := (if unlink_error h p = None then disk w - {p} else disk w),
       trace := trace w @ [UnlinkSync p]\<rparr>"
  by (cases w) (auto simp: download_cleanup_def unlinkSync_def perform_def Let_def split: option.splits)

lemma download_try_unfold:
  "download_try h venvPythonPath w =
     (let w1 = console_log [Str (newline # ''Downloading EasyOCR models...'')] w;
          w2 = console_log [Str ''This may take a few minutes on first run...''] w1
      in and_then (writeFileSync h (scriptPath h) downloadScript w2) (\<lambda>_ w3.
           case download_run h venvPythonPath (scriptPath h) w3 of
             (Stalled, w4) \<Rightarrow> (Stalled, w4)
           | (c, w4) \<Rightarrow> (c, download_cleanup h (scriptPath h) w4)))"
  by (simp only: download_try_def scriptPath_def Let_def)


lemma download_world:
  assumes "write_error h (scriptPath h) = None"
  shows "downloadEasyOCRModels h vpy w =
    (let p = scriptPath h;
         ch = child_of h (vpy, [p]);
         d1 = disk_effect ch (insert p (disk w));
         d2 = (if unlink_error h p = None then d1 - {p} else d1);
         t = trace w @
             [ConsoleLog [Str (newline # ''Downloading EasyOCR models...'')],
              ConsoleLog [Str ''This may take a few minutes on first run...''],
              WriteFileSync p downloadScript,
              Spawn vpy [p]]
     in case runCommandWithOutput_promise (events ch) of
          Pending \<Rightarrow> (Stalled, w\<lparr>disk := d1, trace := t\<rparr>)
        | Fulfilled r \<Rightarrow>
            (Normal (),
             w\<lparr>disk := d2,
               trace := t @ ChildClose (code r) #
                 (if code r \<noteq> Some 0
                  then [ConsoleError [Str ''Error downloading models:'', Str (stderr r)],
                        UnlinkSync p,
                        ConsoleError [Str ''Error downloading EasyOCR models:'',
                          Str ''Failed to download EasyOCR models''],
                        ConsoleWarn [Str ''Models will be downloaded automatically on first use.'']]
                  else [ConsoleLog [Str (stdout r)],
                        ConsoleLog [Str ''EasyOCR models setup complete!''],
                        UnlinkSync p])\<rparr>)
        | Rejected e \<Rightarrow>
            (Normal (),
             w\<lparr>disk := d2,
               trace := t @
                 [ChildError e,
                  UnlinkSync p,
                  ConsoleError [Str ''Error downloading EasyOCR models:'', Str (message e)],
                  ConsoleWarn [Str ''Models will be downloaded automatically on first use.'']]\<rparr>))"
proof -
  note defs = downloadEasyOCRModels_def download_try_unfold download_run_def writeFileSync_def
    runCommandWithOutput_world download_cleanup_world and_then_def await_def console_log_def
    console_error_def console_warn_def perform_def Let_def assms
  show ?thesis
  proof (cases rule: captured_cases[of "events (child_of h (vpy, [scriptPath h]))"])
    case hangs
    then show ?thesis by (simp add: defs)
  next
    case (closes r)
    then show ?thesis by (simp add: defs)
  next
    case (errors e)
    then show ?thesis by (simp add: defs)
  qed
qed

lemma download_write_refused:
  assumes "write_error h (scriptPath h) = Some e"
  shows "downloadEasyOCRModels h vpy w =
    (Normal (),
     w\<lparr>trace := trace w @
        [ConsoleLog [Str (newline # ''Downloading EasyOCR models...'')],
         ConsoleLog [Str ''This may take a few minutes on first run...''],
         WriteFileSync (scriptPath h) downloadScript,
         ConsoleError [Str ''Error downloading EasyOCR models:'', Str (message e)],
         ConsoleWarn [Str ''Models will be downloaded automatically on first use.'']]\<rparr>)"
  by (simp add: downloadEasyOCRModels_def download_try_unfold writeFileSync_def and_then_def
      console_log_def console_error_def console_warn_def perform_def Let_def assms)

subsection \<open>When every installation step succeeds\<close>

lemma after_installs:
  assumes py: "fst (getPythonPath h (start d)) = Inr py"
    and ok: "\<forall>j<length (install_steps h py). step_promise h (install_steps h py ! j) = Fulfilled ()"
  obtains t where
    "run h d =
       (case downloadEasyOCRModels h (venv_python h (venvPath h))
               \<lparr>disk = disk_after h (install_steps h py) d, trace = t\<rparr> of
          (Normal _, w) \<Rightarrow>
            (Finished,
             w\<lparr>trace := trace w @
                [ConsoleLog [Str (newline # ''Python environment setup complete!'')],
                 ConsoleLog [Str ''To activate the virtual environment, run:''],
                 ConsoleLog [Str (activation_hint h)]]\<rparr>)
        | (Throw e, w) \<Rightarrow>
            (Exited 1,
             w\<lparr>trace := trace w @
                [ConsoleError [Str ''Error setting up Python environment:'', Err e],
                 ProcessExit 1]\<rparr>)
        | (Stalled, w) \<Rightarrow> (Hung, w))"
    "spawned t = install_steps h py"
    "file_calls t = []"
    "exits t = []"
    "errors_logged t = []"
    "\<And>u. no_overlap False (t @ u) = no_overlap False u"
proof -
  obtain cmds where r: "run h d = setup_fn h py (venvPath h) \<lparr>disk = d, trace = map ExecSync cmds\<rparr>"
    using run_after_lookup[OF py] by blast
  let ?vp = "venv_python h (venvPath h)"
  let ?s0 = "(py, [''-m'', ''venv'', venvPath h])"
  let ?s1 = "(?vp, [''-m'', ''pip'', ''install'', ''--upgrade'', ''pip''])"
  let ?s2 = "(?vp, [''-m'', ''pip'', ''install'', ''easyocr''])"
  let ?s3 = "(?vp, [''-m'', ''pip'', ''install'', ''torch''])"
  let ?s4 = "(?vp, [''-m'', ''pip'', ''install'', ''torchvision''])"
  let ?steps = "[?s0, ?s1, ?s2, ?s3, ?s4]"
  let ?t = "map ExecSync cmds @
     [ConsoleLog [Str ''Setting up Python environment...''],
      ConsoleLog [Str (''Using Python at: '' @ py)],
      ConsoleLog [Str ''Creating virtual environment...''],
      Spawn py [''-m'', ''venv'', venvPath h], ChildClose (Some 0),
      ConsoleLog [Str ''Upgrading pip...''],
      Spawn ?vp [''-m'', ''pip'', ''install'', ''--upgrade'', ''pip''], ChildClose (Some 0),
      ConsoleLog [Str (''Installing '' @ ''easyocr'' @ ''...'')],
      Spawn ?vp [''-m'', ''pip'', ''install'', ''easyocr''], ChildClose (Some 0),
      ConsoleLog [Str (''Installing '' @ ''torch'' @ ''...'')],
      Spawn ?vp [''-m'', ''pip'', ''install'', ''torch''], ChildClose (Some 0),
      ConsoleLog [Str (''Installing '' @ ''torchvision'' @ ''...'')],
      Spawn ?vp [''-m'', ''pip'', ''install'', ''torchvision''], ChildClose (Some 0),
      ConsoleLog [Str ''Python dependencies installation complete!'']]"
  have steps: "install_steps h py = ?steps"
    by (simp add: install_steps_def requirements_def)
  have okj: "\<And>j. j < 5 \<Longrightarrow> first_close (events (child_of h (?steps ! j))) = Some (Some 0)
      \<and> step_promise h (?steps ! j) = Fulfilled ()"
    using ok step_fulfilled steps by auto
  note oks = okj[of 0] okj[of 1] okj[of 2] okj[of 3] okj[of 4]
  have 1: "run h d =
       (case downloadEasyOCRModels h ?vp \<lparr>disk = disk_after h (install_steps h py) d, trace = ?t\<rparr> of
          (Normal _, w) \<Rightarrow>
            (Finished,
             w\<lparr>trace := trace w @
                [ConsoleLog [Str (newline # ''Python environment setup complete!'')],
                 ConsoleLog [Str ''To activate the virtual environment, run:''],
                 ConsoleLog [Str (activation_hint h)]]\<rparr>)
        | (Throw e, w) \<Rightarrow>
            (Exited 1,
             w\<lparr>trace := trace w @
                [ConsoleError [Str ''Error setting up Python environment:'', Err e],
                 ProcessExit 1]\<rparr>)
        | (Stalled, w) \<Rightarrow> (Hung, w))"
    using oks
    by (simp add: r setup_fn_def setup_try_def runCommand_world and_then_def await_def console_log_def
          console_error_def perform_def process_exit_def requirements_def steps Let_def disk_after_def
          activation_hint_def
        split: prod.splits completion.splits)
  have 2: "spawned ?t = install_steps h py" "file_calls ?t = []" "exits ?t = []" "errors_logged ?t = []"
    by (simp_all add: steps trace_append observers_execs)
  have 3: "\<And>u. no_overlap False (?t @ u) = no_overlap False u"
    by (simp add: no_overlap_execs)
  from that[OF 1 2 3] show ?thesis .
qed

subsection \<open>A failing download\<close>

lemma linux_steps:
  assumes "platform h = ''linux''" "dirname h = ''/opt/app''"
  shows "install_steps h ''/usr/bin/python3'' =
     [(''/usr/bin/python3'', [''-m'', ''venv'', ''/opt/app/venv'']),
      (''/opt/app/venv/bin/python'', [''-m'', ''pip'', ''install'', ''--upgrade'', ''pip'']),
      (''/opt/app/venv/bin/python'', [''-m'', ''pip'', ''install'', ''easyocr'']),
      (''/opt/app/venv/bin/python'', [''-m'', ''pip'', ''install'', ''torch'']),
      (''/opt/app/venv/bin/python'', [''-m'', ''pip'', ''install'', ''torchvision''])]"
    and "download_step h = (''/opt/app/venv/bin/python'', [''/opt/app/download_models_temp.py''])"
  using linux_paths(1,2,3)[OF assms]
  by (simp_all add: install_steps_def download_step_def requirements_def)

text \<open>
  C2. When every installation step succeeds and the driver script, once written, exits
  with a code other than 0, the failure is caught inside the download: it is logged and a
  warning is printed, the set-up prints its closing lines after that, \<^verbatim>\<open>process.exit\<close> is
  never called, and the script runs to its end, which is exit code 0.
\<close>

theorem download_failure_is_warning:
  assumes "fst (getPythonPath h (start d)) = Inr py"
    and "\<forall>j<length (install_steps h py). step_promise h (install_steps h py ! j) = Fulfilled ()"
    and "write_error h (scriptPath h) = None"
    and "runCommandWithOutput_promise (events (child_of h (download_step h))) = Fulfilled r"
    and "code r \<noteq> Some 0"
  shows "fst (run h d) = Finished \<and>
         exit_code_of (fst (run h d)) = Some 0 \<and>
         exits (trace (snd (run h d))) = [] \<and>
         errors_logged (trace (snd (run h d))) =
           [[Str ''Error downloading models:'', Str (stderr r)],
            [Str ''Error downloading EasyOCR models:'', Str ''Failed to download EasyOCR models'']] \<and>
         suffix
           [ConsoleError [Str ''Error downloading EasyOCR models:'',
              Str ''Failed to download EasyOCR models''],
            ConsoleWarn [Str ''Models will be downloaded automatically on first use.''],
            ConsoleLog [Str (newline # ''Python environment setup complete!'')],
            ConsoleLog [Str ''To activate the virtual environment, run:''],
            ConsoleLog [Str (activation_hint h)]]
           (trace (snd (run h d)))"
proof -
  from after_installs[OF assms(1) assms(2)] obtain t where
    r: "run h d =
       (case downloadEasyOCRModels h (venv_python h (venvPath h))
               \<lparr>disk = disk_after h (install_steps h py) d, trace = t\<rparr> of
          (Normal _, w) \<Rightarrow>
            (Finished,
             w\<lparr>trace := trace w @
                [ConsoleLog [Str (newline # ''Python environment setup complete!'')],
                 ConsoleLog [Str ''To activate the virtual environment, run:''],
                 ConsoleLog [Str (activation_hint h)]]\<rparr>)
        | (Throw e, w) \<Rightarrow>
            (Exited 1,
             w\<lparr>trace := trace w @
                [ConsoleError [Str ''Error setting up Python environment:'', Err e],
                 ProcessExit 1]\<rparr>)
        | (Stalled, w) \<Rightarrow> (Hung, w))"
    and t: "exits t = []" "errors_logged t = []"
    by blast
  from assms(4) have p: "runCommandWithOutput_promise
      (events (child_of h (venv_python h (venvPath h), [scriptPath h]))) = Fulfilled r"
    by (simp add: download_step_def)
  let ?pre = "t @
     [ConsoleLog [Str (newline # ''Downloading EasyOCR models...'')],
      ConsoleLog [Str ''This may take a few minutes on first run...''],
      WriteFileSync (scriptPath h) downloadScript,
      Spawn (venv_python h (venvPath h)) [scriptPath h],
      ChildClose (code r),
      ConsoleError [Str ''Error downloading models:'', Str (stderr r)],
      UnlinkSync (scriptPath h)]"
  let ?post = "[ConsoleError [Str ''Error downloading EasyOCR models:'',
              Str ''Failed to download EasyOCR models''],
            ConsoleWarn [Str ''Models will be downloaded automatically on first use.''],
            ConsoleLog [Str (newline # ''Python environment setup complete!'')],
            ConsoleLog [Str ''To activate the virtual environment, run:''],
            ConsoleLog [Str (activation_hint h)]]"
  have st: "fst (run h d) = Finished" and tr: "trace (snd (run h d)) = ?pre @ ?post"
    using p assms(5) by (simp_all add: r download_world[OF assms(3)] Let_def)
  have "suffix ?post (trace (snd (run h d)))"
    unfolding tr by (rule suffixI) (rule refl)
  moreover have "exits (trace (snd (run h d))) = []"
    unfolding tr by (simp add: trace_append t)
  moreover have "errors_logged (trace (snd (run h d))) =
           [[Str ''Error downloading models:'', Str (stderr r)],
            [Str ''Error downloading EasyOCR models:'', Str ''Failed to download EasyOCR models'']]"
    unfolding tr by (simp add: trace_append t)
  ultimately show ?thesis using st by (simp add: exit_code_of_def)
qed

lemma download_fails_promise:
  "runCommandWithOutput_promise
     (events (child_of download_fails (''/opt/app/venv/bin/python'', [''/opt/app/download_models_temp.py'']))) =
   Fulfilled \<lparr>code = Some 1, stdout = ''Initializing'', stderr = ''offline''\<rparr>"
  by (simp add: child_of_def download_fails_def runCommandWithOutput_promise_def resolve_def)

theorem download_failure_is_warning_witness:
  "fst (run download_fails {}) = Finished \<and>
   exit_code_of (fst (run download_fails {})) = Some 0 \<and>
   errors_logged (trace (snd (run download_fails {}))) =
     [[Str ''Error downloading models:'', Str ''offline''],
      [Str ''Error downloading EasyOCR models:'', Str ''Failed to download EasyOCR models'']] \<and>
   suffix
     [ConsoleError [Str ''Error downloading EasyOCR models:'', Str ''Failed to download EasyOCR models''],
      ConsoleWarn [Str ''Models will be downloaded automatically on first use.''],
      ConsoleLog [Str (newline # ''Python environment setup complete!'')],
      ConsoleLog [Str ''To activate the virtual environment, run:''],
      ConsoleLog [Str ''source /opt/app/venv/bin/activate'']]
     (trace (snd (run download_fails {})))"
proof -
  have h: "platform download_fails = ''linux''" "dirname download_fails = ''/opt/app''"
    by (simp_all add: download_fails_def linux_host_def)
  note steps = linux_steps[OF h]
  note paths = linux_paths[OF h]
  have py: "fst (getPythonPath download_fails (start {})) = Inr ''/usr/bin/python3''"
    by (rule linux_python) (simp add: download_fails_def)
  have ok: "\<forall>j<length (install_steps download_fails ''/usr/bin/python3'').
      step_promise download_fails (install_steps download_fails ''/usr/bin/python3'' ! j) = Fulfilled ()"
    unfolding install_steps_length all_less_5 unfolding steps
    by (simp add: step_promise_def child_of_def download_fails_def linux_host_def quiet_child_def closes_with)
  have w: "write_error download_fails (scriptPath download_fails) = None"
    by (simp add: download_fails_def linux_host_def)
  have p: "runCommandWithOutput_promise (events (child_of download_fails (download_step download_fails))) =
      Fulfilled \<lparr>code = Some 1, stdout = ''Initializing'', stderr = ''offline''\<rparr>"
    unfolding steps by (rule download_fails_promise)
  have c: "code \<lparr>code = Some 1, stdout = ''Initializing'', stderr = ''offline''\<rparr> \<noteq> Some 0"
    by simp
  from download_failure_is_warning[OF py ok w p c] show ?thesis
    by (simp add: paths exit_code_of_def)
qed

subsection \<open>The temporary file\<close>

lemma scriptPath_unlink_update [simp]:
  "scriptPath (h\<lparr>unlink_error := u\<rparr>) = scriptPath h"
  "child_of (h\<lparr>unlink_error := u\<rparr>) s = child_of h s"
  by (simp_all add: scriptPath_def path_sep_def child_of_def)

text \<open>
  C3, as the code has it. When the driver script was written and the child settles, on
  success and on failure alike the file calls of the step are the write and then one
  \<^verbatim>\<open>unlinkSync\<close> of the same path; whatever \<^verbatim>\<open>unlinkSync\<close> does, the step completes
  normally with the same trace (a failed deletion is neither thrown nor logged); and the
  file is gone after the step when the deletion was not refused.
\<close>

theorem temp_file_cleanup:
  assumes "write_error h (scriptPath h) = None"
    and "runCommandWithOutput_promise (events (child_of h (vpy, [scriptPath h]))) \<noteq> Pending"
  shows "fst (downloadEasyOCRModels h vpy w) = Normal () \<and>
         file_calls (trace (snd (downloadEasyOCRModels h vpy w))) =
           file_calls (trace w) @
             [WriteFileSync (scriptPath h) downloadScript, UnlinkSync (scriptPath h)] \<and>
         (\<forall>u. fst (downloadEasyOCRModels (h\<lparr>unlink_error := u\<rparr>) vpy w) =
                fst (downloadEasyOCRModels h vpy w) \<and>
              trace (snd (downloadEasyOCRModels (h\<lparr>unlink_error := u\<rparr>) vpy w)) =
                trace (snd (downloadEasyOCRModels h vpy w))) \<and>
         (unlink_error h (scriptPath h) = None \<longrightarrow>
            scriptPath h \<notin> disk (snd (downloadEasyOCRModels h vpy w)))"
proof -
  have wu: "\<And>u. write_error (h\<lparr>unlink_error := u\<rparr>) (scriptPath (h\<lparr>unlink_error := u\<rparr>)) = None"
    using assms(1) by simp
  show ?thesis
  proof (cases "runCommandWithOutput_promise (events (child_of h (vpy, [scriptPath h])))")
    case Pending
    with assms(2) show ?thesis by simp
  next
    case (Fulfilled r)
    then show ?thesis
      by (simp add: download_world[OF assms(1)] download_world[OF wu] Let_def trace_append)
  next
    case (Rejected e)
    then show ?thesis
      by (simp add: download_world[OF assms(1)] download_world[OF wu] Let_def trace_append)
  qed
qed

lemma linux_host_promise:
  "runCommandWithOutput_promise (events (child_of linux_host (vpy, [''/opt/app/download_models_temp.py'']))) =
     Fulfilled \<lparr>code = Some 0, stdout = [], stderr = []\<rparr>"
  by (simp add: child_of_def linux_host_def quiet_child_def runCommandWithOutput_promise_def resolve_def)

theorem temp_file_cleanup_witness:
  "fst (downloadEasyOCRModels linux_host ''/opt/app/venv/bin/python'' (start {})) = Normal () \<and>
   file_calls (trace (snd (downloadEasyOCRModels linux_host ''/opt/app/venv/bin/python'' (start {})))) =
     [WriteFileSync ''/opt/app/download_models_temp.py'' downloadScript,
      UnlinkSync ''/opt/app/download_models_temp.py''] \<and>
   ''/opt/app/download_models_temp.py'' \<notin>
     disk (snd (downloadEasyOCRModels linux_host ''/opt/app/venv/bin/python'' (start {})))"
proof -
  have h: "platform linux_host = ''linux''" "dirname linux_host = ''/opt/app''"
    by (simp_all add: linux_host_def)
  note paths = linux_paths[OF h]
  have w: "write_error linux_host (scriptPath linux_host) = None"
    by (simp add: linux_host_def)
  have p: "runCommandWithOutput_promise
      (events (child_of linux_host (''/opt/app/venv/bin/python'', [scriptPath linux_host]))) \<noteq> Pending"
    unfolding paths by (simp add: linux_host_promise)
  have u: "unlink_error linux_host (scriptPath linux_host) = None"
    by (simp add: linux_host_def)
  from temp_file_cleanup[OF w p, of "start {}"] u show ?thesis
    by (simp add: paths start_def)
qed

text \<open>
  C3, as it is stated, fails on a host that refuses the deletion: the whole script runs to
  its end, the file was written and its deletion attempted, and the file is still on disk.
\<close>

theorem temp_file_survives_refused_unlink:
  "fst (run locked_host {}) = Finished \<and>
   file_calls (trace (snd (run locked_host {}))) =
     [WriteFileSync ''/opt/app/download_models_temp.py'' downloadScript,
      UnlinkSync ''/opt/app/download_models_temp.py''] \<and>
   ''/opt/app/download_models_temp.py'' \<in> disk (snd (run locked_host {}))"
proof -
  have h: "platform locked_host = ''linux''" "dirname locked_host = ''/opt/app''"
    by (simp_all add: locked_host_def linux_host_def)
  note steps = linux_steps[OF h]
  note paths = linux_paths[OF h]
  have py: "fst (getPythonPath locked_host (start {})) = Inr ''/usr/bin/python3''"
    by (rule linux_python) (simp add: locked_host_def)
  have ok: "\<forall>j<length (install_steps locked_host ''/usr/bin/python3'').
      step_promise locked_host (install_steps locked_host ''/usr/bin/python3'' ! j) = Fulfilled ()"
    unfolding install_steps_length all_less_5 unfolding steps
    by (simp add: step_promise_def child_of_def locked_host_def linux_host_def quiet_child_def closes_with)
  have w: "write_error locked_host (scriptPath locked_host) = None"
    by (simp add: locked_host_def linux_host_def)
  have pc: "runCommandWithOutput_promise
      (events (child_of locked_host (''/opt/app/venv/bin/python'', [''/opt/app/download_models_temp.py'']))) =
      Fulfilled \<lparr>code = Some 0, stdout = [], stderr = []\<rparr>"
    by (simp add: child_of_def locked_host_def linux_host_def quiet_child_def
        runCommandWithOutput_promise_def resolve_def)
  have de: "disk_effect
      (child_of locked_host (''/opt/app/venv/bin/python'', [''/opt/app/download_models_temp.py''])) =
      (\<lambda>d. d)"
    by (simp add: child_of_def locked_host_def linux_host_def quiet_child_def)
  have u: "unlink_error locked_host ''/opt/app/download_models_temp.py'' =
      Some (Error ''EPERM: operation not permitted'')"
    by (simp add: locked_host_def)
  from after_installs[OF py ok] obtain t where
    r: "run locked_host {} =
       (case downloadEasyOCRModels locked_host (venv_python locked_host (venvPath locked_host))
               \<lparr>disk = disk_after locked_host (install_steps locked_host ''/usr/bin/python3'') {}, trace = t\<rparr> of
          (Normal _, w) \<Rightarrow>
            (Finished,
             w\<lparr>trace := trace w @
                [ConsoleLog [Str (newline # ''Python environment setup complete!'')],
                 ConsoleLog [Str ''To activate the virtual environment, run:''],
                 ConsoleLog [Str (activation_hint locked_host)]]\<rparr>)
        | (Throw e, w) \<Rightarrow>
            (Exited 1,
             w\<lparr>trace := trace w @
                [ConsoleError [Str ''Error setting up Python environment:'', Err e],
                 ProcessExit 1]\<rparr>)
        | (Stalled, w) \<Rightarrow> (Hung, w))"
    and t: "file_calls t = []"
    by blast
  show ?thesis
    by (simp add: r download_world[OF w] Let_def paths pc de u t trace_append)
qed

subsection \<open>The shape of every run\<close>

lemma first_failure:
  "(\<forall>j<n. P j) \<or> (\<exists>k<n. \<not> P k \<and> (\<forall>j<k. P j))" for n :: nat
proof (induction n)
  case 0
  show ?case by simp
next
  case (Suc n)
  then show ?case
  proof
    assume a: "\<forall>j<n. P j"
    show ?thesis
    proof (cases "P n")
      case True
      with a have "\<forall>j<Suc n. P j" by (simp add: less_Suc_eq)
      then show ?thesis ..
    next
      case False
      with a have "n < Suc n \<and> \<not> P n \<and> (\<forall>j<n. P j)" by simp
      then show ?thesis by blast
    qed
  next
    assume "\<exists>k<n. \<not> P k \<and> (\<forall>j<k. P j)"
    then obtain k where "k < n" "\<not> P k" "\<forall>j<k. P j" by blast
    then have "k < Suc n \<and> \<not> P k \<and> (\<forall>j<k. P j)" by simp
    then show ?thesis by blast
  qed
qed


lemma run_shape:
  assumes py: "fst (getPythonPath h (start d)) = Inr py"
  shows "prefix (spawned (trace (snd (run h d)))) (install_steps h py @ [download_step h])"
    and "take 1 (spawned (trace (snd (run h d)))) = [(py, [''-m'', ''venv'', venvPath h])]"
    and "list_all (\<lambda>s. step_promise h s = Fulfilled ()) (butlast (spawned (trace (snd (run h d)))))"
    and "no_overlap False (trace (snd (run h d)))"
    and "set (file_calls (trace (snd (run h d)))) \<subseteq>
           {WriteFileSync (scriptPath h) downloadScript, UnlinkSync (scriptPath h)}"
proof -
  let ?steps = "install_steps h py"
  let ?tr = "trace (snd (run h d))"
  let ?F = "\<lambda>s. step_promise h s = Fulfilled ()"
  have len: "length ?steps = 5" by (rule install_steps_length)
  have hd0: "take 1 ?steps = [(py, [''-m'', ''venv'', venvPath h])]"
    by (simp add: install_steps_def)
  have "prefix (spawned ?tr) (?steps @ [download_step h])
      \<and> take 1 (spawned ?tr) = [(py, [''-m'', ''venv'', venvPath h])]
      \<and> list_all ?F (butlast (spawned ?tr))
      \<and> no_overlap False ?tr
      \<and> set (file_calls ?tr) \<subseteq> {WriteFileSync (scriptPath h) downloadScript, UnlinkSync (scriptPath h)}"
    using first_failure[of "length ?steps" "\<lambda>j. ?F (?steps ! j)"]
  proof
    assume "\<exists>k<length ?steps. \<not> ?F (?steps ! k) \<and> (\<forall>j<k. ?F (?steps ! j))"
    then obtain k where k: "k < length ?steps" and bad: "\<not> ?F (?steps ! k)"
      and ok: "\<forall>j<k. ?F (?steps ! j)" by blast
    note s = stopped_at_step[OF py k ok bad]
    have 1: "prefix (spawned ?tr) (?steps @ [download_step h])"
      unfolding s(2) by (simp add: prefix_def) (metis append_take_drop_id append.assoc)
    have 2: "take 1 (spawned ?tr) = [(py, [''-m'', ''venv'', venvPath h])]"
      unfolding s(2) using hd0 by (simp add: take_Suc_conv_app_nth install_steps_def)
    have "butlast (take (Suc k) ?steps) = take k ?steps"
      using k by (simp add: butlast_take)
    moreover have "list_all ?F (take k ?steps)"
      using ok k by (simp add: list_all_length)
    ultimately have 3: "list_all ?F (butlast (spawned ?tr))"
      unfolding s(2) by simp
    from 1 2 3 s(4) s(5) show ?thesis by simp
  next
    assume ok: "\<forall>j<length ?steps. ?F (?steps ! j)"
    from after_installs[OF py ok] obtain t where
      r: "run h d =
       (case downloadEasyOCRModels h (venv_python h (venvPath h))
               \<lparr>disk = disk_after h (install_steps h py) d, trace = t\<rparr> of
          (Normal _, w) \<Rightarrow>
            (Finished,
             w\<lparr>trace := trace w @
                [ConsoleLog [Str (newline # ''Python environment setup complete!'')],
                 ConsoleLog [Str ''To activate the virtual environment, run:''],
                 ConsoleLog [Str (activation_hint h)]]\<rparr>)
        | (Throw e, w) \<Rightarrow>
            (Exited 1,
             w\<lparr>trace := trace w @
                [ConsoleError [Str ''Error setting up Python environment:'', Err e],
                 ProcessExit 1]\<rparr>)
        | (Stalled, w) \<Rightarrow> (Hung, w))"
      and t: "spawned t = ?steps" "file_calls t = []"
      and no: "\<And>u. no_overlap False (t @ u) = no_overlap False u"
      by blast
    have all: "list_all ?F ?steps" using ok by (simp add: list_all_length)
    then have all': "list_all ?F (butlast ?steps)"
      by (simp add: list_all_iff) (meson in_set_butlastD)
    show ?thesis
    proof (cases "write_error h (scriptPath h)")
      case (Some e)
      have tr: "?tr = t @
        [ConsoleLog [Str (newline # ''Downloading EasyOCR models...'')],
         ConsoleLog [Str ''This may take a few minutes on first run...''],
         WriteFileSync (scriptPath h) downloadScript,
         ConsoleError [Str ''Error downloading EasyOCR models:'', Str (message e)],
         ConsoleWarn [Str ''Models will be downloaded automatically on first use.''],
         ConsoleLog [Str (newline # ''Python environment setup complete!'')],
         ConsoleLog [Str ''To activate the virtual environment, run:''],
         ConsoleLog [Str (activation_hint h)]]"
        by (simp add: r download_write_refused[OF Some])
      show ?thesis
        unfolding tr using all' hd0 by (simp add: trace_append t no len)
    next
      case None
      let ?p = "runCommandWithOutput_promise
        (events (child_of h (venv_python h (venvPath h), [scriptPath h])))"
      have sp: "spawned ?tr = ?steps @ [download_step h]"
        and fc: "set (file_calls ?tr) \<subseteq>
           {WriteFileSync (scriptPath h) downloadScript, UnlinkSync (scriptPath h)}"
        and nov: "no_overlap False ?tr"
        by (cases ?p; simp add: r download_world[OF None] Let_def trace_append t no download_step_def)+
      show ?thesis
        unfolding sp using all hd0 fc nov by (simp add: len)
    qed
  qed
  then show "prefix (spawned (trace (snd (run h d)))) (install_steps h py @ [download_step h])"
    and "take 1 (spawned (trace (snd (run h d)))) = [(py, [''-m'', ''venv'', venvPath h])]"
    and "list_all (\<lambda>s. step_promise h s = Fulfilled ()) (butlast (spawned (trace (snd (run h d)))))"
    and "no_overlap False (trace (snd (run h d)))"
    and "set (file_calls (trace (snd (run h d)))) \<subseteq>
           {WriteFileSync (scriptPath h) downloadScript, UnlinkSync (scriptPath h)}"
    by blast+
qed

subsection \<open>Order of the steps, and where the files go\<close>




text \<open>
  C4, as the code has it. The environment is created at \<^verbatim>\<open>venv\<close> in the directory of the
  script file: that path is the argument of the first command, whatever directory the
  process was started in. The only file calls of the script are the write and the
  deletion of \<^verbatim>\<open>download_models_temp.py\<close> in the same directory.
\<close>

theorem venv_and_temp_file_beside_script:
  assumes "dirname h \<noteq> []"
    and "fst (getPythonPath h (start d)) = Inr py"
  shows "take 1 (spawned (trace (snd (run h d)))) = [(py, [''-m'', ''venv'', venvPath h])] \<and>
         venvPath h = join2 (path_sep h) (dirname h) ''venv'' \<and>
         is_under h (dirname h) (venvPath h) \<and>
         set (file_calls (trace (snd (run h d)))) \<subseteq>
           {WriteFileSync (scriptPath h) downloadScript, UnlinkSync (scriptPath h)} \<and>
         scriptPath h = join2 (path_sep h) (dirname h) ''download_models_temp.py'' \<and>
         is_under h (dirname h) (scriptPath h)"
proof -
  have "venvPath h = join2 (path_sep h) (dirname h) ''venv''"
    and "scriptPath h = join2 (path_sep h) (dirname h) ''download_models_temp.py''"
    by (simp_all add: venvPath_def scriptPath_def)
  moreover have "is_under h (dirname h) (venvPath h)" "is_under h (dirname h) (scriptPath h)"
    using assms(1) by (simp_all add: is_under_def venvPath_def scriptPath_def join2_def)
  ultimately show ?thesis using run_shape(2,5)[OF assms(2)] by simp
qed

theorem venv_and_temp_file_beside_script_witness:
  "take 1 (spawned (trace (snd (run linux_host {})))) =
     [(''/usr/bin/python3'', [''-m'', ''venv'', ''/opt/app/venv''])] \<and>
   is_under linux_host ''/opt/app'' ''/opt/app/venv'' \<and>
   set (file_calls (trace (snd (run linux_host {})))) \<subseteq>
     {WriteFileSync ''/opt/app/download_models_temp.py'' downloadScript,
      UnlinkSync ''/opt/app/download_models_temp.py''} \<and>
   is_under linux_host ''/opt/app'' ''/opt/app/download_models_temp.py''"
proof -
  have h: "platform linux_host = ''linux''" "dirname linux_host = ''/opt/app''"
    by (simp_all add: linux_host_def)
  have d: "dirname linux_host \<noteq> []" by (simp add: linux_host_def)
  have py: "fst (getPythonPath linux_host (start {})) = Inr ''/usr/bin/python3''"
    by (rule linux_python) simp
  from venv_and_temp_file_beside_script[OF d py] show ?thesis
    by (simp add: linux_paths[OF h] h path_sep_def join2_def)
qed

text \<open>
  C4, as it is stated, fails when the process is started elsewhere: with the script in
  \<^verbatim>\<open>/opt/app\<close> and the process started in \<^verbatim>\<open>/home/user\<close>, the environment is created
  at \<^verbatim>\<open>/opt/app/venv\<close>, which is not under \<^verbatim>\<open>/home/user\<close>.
\<close>

theorem venv_not_under_cwd:
  "cwd linux_host = ''/home/user'' \<and>
   take 1 (spawned (trace (snd (run linux_host {})))) =
     [(''/usr/bin/python3'', [''-m'', ''venv'', ''/opt/app/venv''])] \<and>
   \<not> is_under linux_host (cwd linux_host) ''/opt/app/venv''"
proof -
  have h: "platform linux_host = ''linux''" "dirname linux_host = ''/opt/app''"
    by (simp_all add: linux_host_def)
  have py: "fst (getPythonPath linux_host (start {})) = Inr ''/usr/bin/python3''"
    by (rule linux_python) simp
  have c: "cwd linux_host = ''/home/user''" by (simp add: linux_host_def)
  have "\<not> is_under linux_host ''/home/user'' ''/opt/app/venv''"
    by (simp add: is_under_def path_sep_def h)
  with run_shape(2)[OF py] c show ?thesis by (simp add: linux_paths[OF h])
qed

end
